theory Spec2Isabelle
  imports Main "HOL-Library.AList"
begin

section \<open>Python strings\<close>

text \<open>
  A Python \<open>str\<close> is a \<open>string\<close>. Text outside ASCII is carried as its UTF-8 bytes;
  the operations below are the \<open>str\<close> methods that \<open>main.py\<close> calls.
\<close>

definition NL :: string where
  \<open>NL = [CHR 0x0A]\<close>

definition startswith :: \<open>string \<Rightarrow> string \<Rightarrow> bool\<close> where
  \<comment> \<open>\<open>text.startswith(sub)\<close>\<close>
  \<open>startswith text sub = (take (length sub) text = sub)\<close>

fun first_index :: \<open>string \<Rightarrow> string \<Rightarrow> nat option\<close> where
  \<comment> \<open>position of the leftmost occurrence of \<open>sub\<close> in \<open>text\<close>\<close>
  \<open>first_index sub [] = (if sub = [] then Some 0 else None)\<close>
| \<open>first_index sub (c # cs) =
     (if startswith (c # cs) sub then Some 0 else map_option Suc (first_index sub cs))\<close>

definition contains :: \<open>string \<Rightarrow> string \<Rightarrow> bool\<close> where
  \<comment> \<open>\<open>sub in text\<close>\<close>
  \<open>contains text sub = (first_index sub text \<noteq> None)\<close>

definition str_find :: \<open>string \<Rightarrow> string \<Rightarrow> int \<Rightarrow> int\<close> where
  \<comment> \<open>\<open>text.find(sub, start)\<close> for \<open>start \<ge> 0\<close>: the index, or \<open>-1\<close>\<close>
  \<open>str_find text sub start =
     (if nat start \<le> length text
      then (case first_index sub (drop (nat start) text) of
              None \<Rightarrow> - 1
            | Some i \<Rightarrow> start + int i)
      else - 1)\<close>

definition slice :: \<open>string \<Rightarrow> int \<Rightarrow> int \<Rightarrow> string\<close> where
  \<comment> \<open>\<open>text[a:e]\<close> for \<open>a \<ge> 0\<close>; a negative \<open>e\<close> counts from the end\<close>
  \<open>slice text a e =
     (let n = int (length text);
          stop = (if e < 0 then max 0 (n + e) else min e n)
      in take (nat (stop - a)) (drop (nat a) text))\<close>

text \<open>
  The whitespace of \<open>str.isspace\<close>, by the UTF-8 bytes of its code points: one byte for
  U+0009 to U+000D and U+001C to U+0020; two bytes for U+0085 and U+00A0; three bytes for
  U+1680, U+2000 to U+200A, U+2028, U+2029, U+202F, U+205F and U+3000.
\<close>

definition space1 :: \<open>char \<Rightarrow> bool\<close> where
  \<open>space1 a = (let n = (of_char a :: nat) in (9 \<le> n \<and> n \<le> 13) \<or> (28 \<le> n \<and> n \<le> 32))\<close>

definition space2 :: \<open>char \<Rightarrow> char \<Rightarrow> bool\<close> where
  \<open>space2 a b = (a = CHR 0xC2 \<and> (b = CHR 0x85 \<or> b = CHR 0xA0))\<close>

definition space3 :: \<open>char \<Rightarrow> char \<Rightarrow> char \<Rightarrow> bool\<close> where
  \<open>space3 a b c =
     ((a = CHR 0xE1 \<and> b = CHR 0x9A \<and> c = CHR 0x80)
      \<or> (a = CHR 0xE2 \<and> b = CHR 0x80
          \<and> (let n = (of_char c :: nat) in (128 \<le> n \<and> n \<le> 138) \<or> n = 168 \<or> n = 169 \<or> n = 175))
      \<or> (a = CHR 0xE2 \<and> b = CHR 0x81 \<and> c = CHR 0x9F)
      \<or> (a = CHR 0xE3 \<and> b = CHR 0x80 \<and> c = CHR 0x80))\<close>

fun lstrip :: \<open>string \<Rightarrow> string\<close> where
  \<comment> \<open>\<open>text.lstrip()\<close>: the whitespace code points at the start are removed\<close>
  \<open>lstrip [] = []\<close>
| \<open>lstrip [a] = (if space1 a then [] else [a])\<close>
| \<open>lstrip [a, b] = (if space1 a then lstrip [b] else if space2 a b then [] else [a, b])\<close>
| \<open>lstrip (a # b # c # cs) =
     (if space1 a then lstrip (b # c # cs)
      else if space2 a b then lstrip (c # cs)
      else if space3 a b c then lstrip cs
      else a # b # c # cs)\<close>

fun rstrip_rev :: \<open>string \<Rightarrow> string\<close> where
  \<comment> \<open>\<open>text.rstrip()\<close> on the reversed text: \<open>a\<close> is the last byte, \<open>b\<close> the one before it\<close>
  \<open>rstrip_rev [] = []\<close>
| \<open>rstrip_rev [a] = (if space1 a then [] else [a])\<close>
| \<open>rstrip_rev [a, b] = (if space1 a then rstrip_rev [b] else if space2 b a then [] else [a, b])\<close>
| \<open>rstrip_rev (a # b # c # cs) =
     (if space1 a then rstrip_rev (b # c # cs)
      else if space2 b a then rstrip_rev (c # cs)
      else if space3 c b a then rstrip_rev cs
      else a # b # c # cs)\<close>

definition strip :: \<open>string \<Rightarrow> string\<close> where
  \<comment> \<open>\<open>text.strip()\<close>\<close>
  \<open>strip text = rev (rstrip_rev (rev (lstrip text)))\<close>

fun str_replace :: \<open>string \<Rightarrow> string \<Rightarrow> string \<Rightarrow> string\<close> where
  \<comment> \<open>\<open>text.replace(old, new)\<close>: every non-overlapping occurrence, left to right\<close>
  \<open>str_replace old new [] = (if old = [] then new else [])\<close>
| \<open>str_replace old new (c # cs) =
     (if old = [] then new @ c # str_replace old new cs
      else if startswith (c # cs) old
           then new @ str_replace old new (drop (length old - 1) cs)
           else c # str_replace old new cs)\<close>

definition to_lower :: \<open>char \<Rightarrow> char\<close> where
  \<open>to_lower c = (let n = (of_char c :: nat) in if 65 \<le> n \<and> n \<le> 90 then char_of (n + 32) else c)\<close>

definition lower :: \<open>string \<Rightarrow> string\<close> where
  \<comment> \<open>\<open>text.lower()\<close> on ASCII letters; its one use is \<open>classify\<close>, whose classes all continue\<close>
  \<open>lower text = map to_lower text\<close>

section \<open>Decoded JSON values\<close>

text \<open>
  What \<open>json.loads\<close> returns. \<open>JNull\<close> is Python's \<open>None\<close>; \<open>JFloat m e\<close> is the float
  \<open>m * 10 ^ e\<close>; a \<open>JDict\<close> lists its keys in insertion order, each key once.
\<close>

datatype json =
    JNull
  | JBool bool
  | JInt int
  | JFloat int int
  | JStr string
  | JList \<open>json list\<close>
  | JDict \<open>(string \<times> json) list\<close>

fun truthy :: \<open>json \<Rightarrow> bool\<close> where
  \<comment> \<open>\<open>if v:\<close>\<close>
  \<open>truthy JNull = False\<close>
| \<open>truthy (JBool b) = b\<close>
| \<open>truthy (JInt n) = (n \<noteq> 0)\<close>
| \<open>truthy (JFloat m e) = (m \<noteq> 0)\<close>
| \<open>truthy (JStr s) = (s \<noteq> [])\<close>
| \<open>truthy (JList xs) = (xs \<noteq> [])\<close>
| \<open>truthy (JDict kvs) = (kvs \<noteq> [])\<close>

section \<open>The directive extractor\<close>

text \<open>
  \<open>extract_json\<close> of \<open>main.py\<close> (lines 472--482). \<open>json.loads\<close> is the parameter
  \<open>loads\<close>, with \<open>None\<close> for a raised exception. The first component of the result is
  the decoded payload, \<open>JNull\<close> where the source returns \<open>None\<close>.
\<close>

definition extract_json :: \<open>(string \<Rightarrow> json option) \<Rightarrow> string \<Rightarrow> string \<Rightarrow> json \<times> string\<close> where
  \<open>extract_json loads tag text =
     (if contains text tag then
        (let s = str_find text tag 0;
             e = str_find text '']]'' s;
             json_str = slice text (s + int (length tag)) e
         in case loads json_str of
              Some v \<Rightarrow> (v, strip (take (nat s) text))
            | None \<Rightarrow> (JNull, strip (str_replace (tag @ '' '' @ json_str @ '']]'') [] text)))
      else (JNull, text))\<close>

section \<open>A JSON reader\<close>

text \<open>
  \<open>json.loads\<close> is a parameter of \<open>extract_json\<close> and of the pipeline, and every general
  statement holds for any decoder. The instances are evaluated with \<open>json_loads\<close>: objects,
  arrays, strings with the one-letter escapes, numbers, \<open>true\<close>, \<open>false\<close> and \<open>null\<close>, with
  blanks between tokens and nothing after the value. A repeated key keeps its first place
  and takes the last value. The escapes \<open>\u....\<close> and the literals \<open>NaN\<close> and
  \<open>Infinity\<close> are not read. Every call on a value or on the rest of an array or object
  comes after at least one more character of the input, so the fuel \<open>length s + 2\<close> is
  never used up on \<open>s\<close>.
\<close>

definition is_json_ws :: \<open>char \<Rightarrow> bool\<close> where
  \<open>is_json_ws c = (c = CHR 0x20 \<or> c = CHR 0x09 \<or> c = CHR 0x0A \<or> c = CHR 0x0D)\<close>

definition skip_ws :: \<open>string \<Rightarrow> string\<close> where
  \<open>skip_ws s = dropWhile is_json_ws s\<close>

definition is_digit :: \<open>char \<Rightarrow> bool\<close> where
  \<open>is_digit c = (let n = (of_char c :: nat) in 48 \<le> n \<and> n \<le> 57)\<close>

definition int_of_digits :: \<open>string \<Rightarrow> int\<close> where
  \<open>int_of_digits ds = foldl (\<lambda>a c. 10 * a + ((of_char c :: int) - 48)) 0 ds\<close>

definition unescape :: \<open>char \<Rightarrow> char option\<close> where
  \<open>unescape e =
     (if e = CHR 0x22 \<or> e = CHR 0x5C \<or> e = CHR ''/'' then Some e
      else if e = CHR ''b'' then Some (CHR 0x08)
      else if e = CHR ''f'' then Some (CHR 0x0C)
      else if e = CHR ''n'' then Some (CHR 0x0A)
      else if e = CHR ''r'' then Some (CHR 0x0D)
      else if e = CHR ''t'' then Some (CHR 0x09)
      else None)\<close>

fun scan_string :: \<open>string \<Rightarrow> string \<Rightarrow> (string \<times> string) option\<close> where
  \<open>scan_string acc [] = None\<close>
| \<open>scan_string acc [c] = (if c = CHR 0x22 then Some (rev acc, []) else None)\<close>
| \<open>scan_string acc (c # e # cs) =
     (if c = CHR 0x22 then Some (rev acc, e # cs)
      else if c = CHR 0x5C then
        (case unescape e of
           Some ch \<Rightarrow> scan_string (ch # acc) cs
         | None \<Rightarrow> None)
      else if (of_char c :: nat) < 32 then None
      else scan_string (c # acc) (e # cs))\<close>

definition scan_number :: \<open>string \<Rightarrow> (json \<times> string) option\<close> where
  \<open>scan_number s =
     (let neg = (case s of [] \<Rightarrow> False | c # _ \<Rightarrow> c = CHR ''-'');
          s1 = (if neg then tl s else s);
          ip = (case s1 of [] \<Rightarrow> [] | c # _ \<Rightarrow> if c = CHR ''0'' then [c] else takeWhile is_digit s1);
          s2 = drop (length ip) s1;
          fr = (case s2 of [] \<Rightarrow> [] | c # r \<Rightarrow> if c = CHR ''.'' then takeWhile is_digit r else []);
          s3 = (if fr = [] then s2 else drop (Suc (length fr)) s2);
          hasexp = (case s3 of [] \<Rightarrow> False | c # _ \<Rightarrow> c = CHR ''e'' \<or> c = CHR ''E'');
          s3a = (if hasexp then tl s3 else s3);
          eneg = (case s3a of [] \<Rightarrow> False | c # _ \<Rightarrow> c = CHR ''-'');
          esig = (case s3a of [] \<Rightarrow> False | c # _ \<Rightarrow> c = CHR ''-'' \<or> c = CHR ''+'');
          s3b = (if esig then tl s3a else s3a);
          ex = (if hasexp then takeWhile is_digit s3b else []);
          s4 = (if ex = [] then s3 else drop (length ex) s3b);
          sgn = (\<lambda>b n. if b then - n else n)
      in if ip = [] then None
         else if fr = [] \<and> ex = [] then Some (JInt (sgn neg (int_of_digits ip)), s4)
         else Some (JFloat (sgn neg (int_of_digits (ip @ fr)))
                           (sgn eneg (int_of_digits ex) - int (length fr)), s4))\<close>

fun parse_value :: \<open>nat \<Rightarrow> string \<Rightarrow> (json \<times> string) option\<close>
and parse_elems :: \<open>nat \<Rightarrow> json list \<Rightarrow> string \<Rightarrow> (json \<times> string) option\<close>
and parse_members :: \<open>nat \<Rightarrow> (string \<times> json) list \<Rightarrow> string \<Rightarrow> (json \<times> string) option\<close>
where
  \<open>parse_value 0 s = None\<close>
| \<open>parse_value (Suc n) s =
     (case s of
        [] \<Rightarrow> None
      | c # cs \<Rightarrow>
          if c = CHR 0x22 then
            (case scan_string [] cs of None \<Rightarrow> None | Some (str, r) \<Rightarrow> Some (JStr str, r))
          else if c = CHR ''['' then
            (if startswith (skip_ws cs) '']'' then Some (JList [], tl (skip_ws cs))
             else parse_elems n [] (skip_ws cs))
          else if c = CHR ''{'' then
            (if startswith (skip_ws cs) ''}'' then Some (JDict [], tl (skip_ws cs))
             else parse_members n [] (skip_ws cs))
          else if startswith s ''null'' then Some (JNull, drop 4 s)
          else if startswith s ''true'' then Some (JBool True, drop 4 s)
          else if startswith s ''false'' then Some (JBool False, drop 5 s)
          else scan_number s)\<close>
| \<open>parse_elems 0 acc s = None\<close>
| \<open>parse_elems (Suc n) acc s =
     (case parse_value n s of
        None \<Rightarrow> None
      | Some (v, r) \<Rightarrow>
          (case skip_ws r of
             [] \<Rightarrow> None
           | c # r' \<Rightarrow>
               if c = CHR '','' then parse_elems n (acc @ [v]) (skip_ws r')
               else if c = CHR '']'' then Some (JList (acc @ [v]), r')
               else None))\<close>
| \<open>parse_members 0 acc s = None\<close>
| \<open>parse_members (Suc n) acc s =
     (case s of
        [] \<Rightarrow> None
      | q # s' \<Rightarrow>
          if q \<noteq> CHR 0x22 then None
          else
            (case scan_string [] s' of
               None \<Rightarrow> None
             | Some (k, r) \<Rightarrow>
                 (case skip_ws r of
                    [] \<Rightarrow> None
                  | c # r' \<Rightarrow>
                      if c \<noteq> CHR '':'' then None
                      else
                        (case parse_value n (skip_ws r') of
                           None \<Rightarrow> None
                         | Some (v, r'') \<Rightarrow>
                             (case skip_ws r'' of
                                [] \<Rightarrow> None
                              | d # r3 \<Rightarrow>
                                  if d = CHR '','' then parse_members n (AList.update k v acc) (skip_ws r3)
                                  else if d = CHR ''}'' then Some (JDict (AList.update k v acc), r3)
                                  else None)))))\<close>

definition json_loads :: \<open>string \<Rightarrow> json option\<close> where
  \<open>json_loads s =
     (case parse_value (length s + 2) (skip_ws s) of
        None \<Rightarrow> None
      | Some (v, r) \<Rightarrow> if skip_ws r = [] then Some v else None)\<close>

section \<open>Rows, the store and the outside world\<close>

text \<open>
  A \<open>users\<close> row has the columns of the class \<open>User\<close> (lines 64--72) and the key
  \<open>id\<close> that the pipeline reads, here \<open>uid\<close>. Tables are lists in insertion order,
  which is the order of \<open>created_at\<close>.
\<close>

record user =
  uid :: nat
  phone_number :: string
  name :: \<open>string option\<close>
  age :: \<open>int option\<close>
  gender :: \<open>string option\<close>
  blood_group :: \<open>string option\<close>
  allergies :: \<open>string option\<close>
  medical_history :: \<open>string option\<close>
  emergency_contact :: \<open>string option\<close>

record turn =
  t_user_id :: nat
  role :: string
  content :: string

record reminder =
  rid :: nat
  r_user_id :: nat
  reminder_time :: int
  message :: json
  status :: string

datatype media = Image string | Audio string string

text \<open>
  One invocation of a model: \<open>generate_content\<close> (model, system instructions, media label,
  media, user text), \<open>start_chat(history).send_message(prompt)\<close> (model, history, prompt), and
  the fallback's \<open>chat.completions.create\<close> (system content, user content).
\<close>

datatype call =
    GenerateContent string string string media string
  | SendMessage string \<open>(string \<times> string) list\<close> string
  | GroqChat string string

datatype post_result = Status nat | Timeout | RequestError

datatype store_op =
    SelectUser string
  | InsertUser string string
  | UpdateUser string json
  | SelectHistory nat
  | InsertTurn nat string string
  | InsertReminder nat int json
  | SelectDue int
  | SelectUserById nat
  | MarkSent nat

text \<open>
  The state that a run reads and changes: the three tables, every message handed to the
  WhatsApp API with whether it was accepted, and every model invocation.
\<close>

record world =
  users :: \<open>user list\<close>
  chat_history :: \<open>turn list\<close>
  reminders :: \<open>reminder list\<close>
  outbox :: \<open>(string \<times> string \<times> bool) list\<close>
  calls :: \<open>call list\<close>

text \<open>
  What the collaborators and the library answer during a run. \<open>store_raises op\<close> says that
  the store's \<open>execute\<close> raises on \<open>op\<close>; \<open>post\<close> is the answer of \<open>requests.post\<close>;
  \<open>gemini\<close> and the fallback client answer \<open>Inr\<close> the response text or \<open>Inl\<close> the text of
  the exception; \<open>loads\<close>, \<open>py_str\<close> and \<open>fromisoformat\<close> are \<open>json.loads\<close>, \<open>str()\<close>
  and \<open>datetime.fromisoformat\<close> (read on the store's time line); \<open>prompt_head\<close> and
  \<open>prompt_tail\<close> are the fixed prose of the system prompt before and after its three
  interpolated lines.
\<close>

record env =
  store_raises :: \<open>store_op \<Rightarrow> bool\<close>
  post :: \<open>string \<Rightarrow> string \<Rightarrow> post_result\<close>
  gemini :: \<open>call \<Rightarrow> string + string\<close>
  groq_client :: \<open>(call \<Rightarrow> string + string) option\<close>
  loads :: \<open>string \<Rightarrow> json option\<close>
  py_str :: \<open>json \<Rightarrow> string\<close>
  fromisoformat :: \<open>string \<Rightarrow> int option\<close>
  now :: int
  now_hour :: nat
  now_text :: string
  media_url :: \<open>string \<Rightarrow> string option\<close>
  media_download :: \<open>string \<Rightarrow> string option \<times> string option\<close>
  image_open :: \<open>string \<Rightarrow> bool\<close>
  prompt_head :: string
  prompt_tail :: string

datatype result = Done world | Raised world

definition fresh_id :: \<open>nat list \<Rightarrow> nat\<close> where
  \<open>fresh_id ids = Suc (fold max ids 0)\<close>

subsection \<open>Database helpers (lines 79--144)\<close>

definition get_user :: \<open>env \<Rightarrow> world \<Rightarrow> string \<Rightarrow> user option\<close> where
  \<open>get_user env w phone =
     (if store_raises env (SelectUser phone) then None
      else (case filter (\<lambda>u. phone_number u = phone) (users w) of
              [] \<Rightarrow> None
            | u # _ \<Rightarrow> Some u))\<close>

definition create_user :: \<open>env \<Rightarrow> world \<Rightarrow> string \<Rightarrow> string \<Rightarrow> world\<close> where
  \<open>create_user env w phone nm =
     (if store_raises env (InsertUser phone nm) then w
      else w\<lparr>users := users w @
             [\<lparr>uid = fresh_id (map uid (users w)), phone_number = phone, name = Some nm,
               age = None, gender = None, blood_group = None, allergies = None,
               medical_history = None, emergency_contact = None\<rparr>]\<rparr>)\<close>

definition as_text :: \<open>json \<Rightarrow> string option option\<close> where
  \<open>as_text v = (case v of JStr s \<Rightarrow> Some (Some s) | JNull \<Rightarrow> Some None | _ \<Rightarrow> None)\<close>

definition as_int :: \<open>json \<Rightarrow> int option option\<close> where
  \<open>as_int v = (case v of JInt n \<Rightarrow> Some (Some n) | JNull \<Rightarrow> Some None | _ \<Rightarrow> None)\<close>

text \<open>
  The store's side of an update: each listed column takes the listed value. A payload that
  the table does not take is the store's to refuse (\<open>store_raises\<close>); here such an entry
  leaves the row as it is.
\<close>

definition set_column :: \<open>string \<times> json \<Rightarrow> user \<Rightarrow> user\<close> where
  \<open>set_column kv u =
     (let k = fst kv; v = snd kv in
      if k = ''name'' then (case as_text v of Some x \<Rightarrow> u\<lparr>name := x\<rparr> | None \<Rightarrow> u)
      else if k = ''age'' then (case as_int v of Some x \<Rightarrow> u\<lparr>age := x\<rparr> | None \<Rightarrow> u)
      else if k = ''gender'' then (case as_text v of Some x \<Rightarrow> u\<lparr>gender := x\<rparr> | None \<Rightarrow> u)
      else if k = ''blood_group'' then (case as_text v of Some x \<Rightarrow> u\<lparr>blood_group := x\<rparr> | None \<Rightarrow> u)
      else if k = ''allergies'' then (case as_text v of Some x \<Rightarrow> u\<lparr>allergies := x\<rparr> | None \<Rightarrow> u)
      else if k = ''medical_history'' then (case as_text v of Some x \<Rightarrow> u\<lparr>medical_history := x\<rparr> | None \<Rightarrow> u)
      else if k = ''emergency_contact'' then (case as_text v of Some x \<Rightarrow> u\<lparr>emergency_contact := x\<rparr> | None \<Rightarrow> u)
      else u)\<close>

definition set_columns :: \<open>json \<Rightarrow> user \<Rightarrow> user\<close> where
  \<open>set_columns updates u = (case updates of JDict kvs \<Rightarrow> fold set_column kvs u | _ \<Rightarrow> u)\<close>

definition update_user_profile :: \<open>env \<Rightarrow> world \<Rightarrow> string \<Rightarrow> json \<Rightarrow> world\<close> where
  \<open>update_user_profile env w phone updates =
     (if store_raises env (UpdateUser phone updates) then w
      else w\<lparr>users := map (\<lambda>u. if phone_number u = phone then set_columns updates u else u)
                            (users w)\<rparr>)\<close>

definition get_chat_history :: \<open>env \<Rightarrow> world \<Rightarrow> nat \<Rightarrow> turn list\<close> where
  \<comment> \<open>the newest ten turns of the user, oldest first\<close>
  \<open>get_chat_history env w user_id =
     (if store_raises env (SelectHistory user_id) then []
      else (let rows = filter (\<lambda>t. t_user_id t = user_id) (chat_history w)
            in drop (length rows - 10) rows))\<close>

definition save_message :: \<open>env \<Rightarrow> world \<Rightarrow> nat \<Rightarrow> string \<Rightarrow> string \<Rightarrow> world\<close> where
  \<open>save_message env w user_id rl text =
     (if store_raises env (InsertTurn user_id rl text) then w
      else w\<lparr>chat_history := chat_history w @
             [\<lparr>t_user_id = user_id, role = rl, content = text\<rparr>]\<rparr>)\<close>

definition create_reminder :: \<open>env \<Rightarrow> world \<Rightarrow> nat \<Rightarrow> int \<Rightarrow> json \<Rightarrow> world\<close> where
  \<open>create_reminder env w user_id r_time msg =
     (if store_raises env (InsertReminder user_id r_time msg) then w
      else w\<lparr>reminders := reminders w @
             [\<lparr>rid = fresh_id (map rid (reminders w)), r_user_id = user_id,
               reminder_time = r_time, message = msg, status = ''pending''\<rparr>]\<rparr>)\<close>

subsection \<open>Sending (lines 174--206)\<close>

definition post_ok :: \<open>post_result \<Rightarrow> bool\<close> where
  \<open>post_ok r = (case r of Status c \<Rightarrow> c = 200 | Timeout \<Rightarrow> False | RequestError \<Rightarrow> False)\<close>

definition send_whatsapp_message :: \<open>env \<Rightarrow> world \<Rightarrow> string \<Rightarrow> string \<Rightarrow> world \<times> bool\<close> where
  \<open>send_whatsapp_message env w to_phone msg =
     (let ok = post_ok (post env to_phone msg)
      in (w\<lparr>outbox := outbox w @ [(to_phone, msg, ok)]\<rparr>, ok))\<close>

section \<open>The message pipeline (lines 237--521)\<close>

definition WARNING_SIGN :: string where
  \<open>WARNING_SIGN = [CHR 0xE2, CHR 0x9A, CHR 0xA0, CHR 0xEF, CHR 0xB8, CHR 0x8F]\<close>

definition SIREN :: string where
  \<open>SIREN = [CHR 0xF0, CHR 0x9F, CHR 0x9A, CHR 0xA8]\<close>

definition CHECK_MARK :: string where
  \<open>CHECK_MARK = [CHR 0xE2, CHR 0x9C, CHR 0x85]\<close>

definition ALARM_CLOCK :: string where
  \<open>ALARM_CLOCK = [CHR 0xE2, CHR 0x8F, CHR 0xB0]\<close>

definition INTRO :: string where
  \<open>INTRO = ''Jai Shree Shyam! Namaste! I am Jiva, your personal Health Guardian. Before we start, may I know your good name?''\<close>

definition NOTICE :: string where
  \<open>NOTICE = WARNING_SIGN @ '' Server Overload: All AI systems are busy. Emergency? Call 108 immediately.''\<close>

definition models_to_try :: \<open>string list\<close> where
  \<open>models_to_try = [''gemini-2.0-flash'', ''gemini-2.0-flash-lite-001'']\<close>

fun str_nat :: \<open>nat \<Rightarrow> string\<close> where
  \<open>str_nat n = (if n < 10 then [char_of (48 + n)]
                else str_nat (n div 10) @ [char_of (48 + n mod 10)])\<close>

definition str_int :: \<open>int \<Rightarrow> string\<close> where
  \<open>str_int i = (if i < 0 then CHR ''-'' # str_nat (nat (- i)) else str_nat (nat i))\<close>

definition fmt :: \<open>string option \<Rightarrow> string\<close> where
  \<comment> \<open>an optional text inside an f-string\<close>
  \<open>fmt v = (case v of None \<Rightarrow> ''None'' | Some s \<Rightarrow> s)\<close>

definition nonempty :: \<open>string option \<Rightarrow> bool\<close> where
  \<comment> \<open>\<open>if v:\<close> for an optional text\<close>
  \<open>nonempty v = (case v of None \<Rightarrow> False | Some s \<Rightarrow> s \<noteq> [])\<close>

definition profile_str :: \<open>user \<Rightarrow> string\<close> where
  \<comment> \<open>lines 264--269\<close>
  \<open>profile_str u =
     (let p0 = ''Name: '' @ fmt (name u) @ NL;
          p1 = (case age u of
                  Some a \<Rightarrow> if a \<noteq> 0 then p0 @ ''Age: '' @ str_int a @ NL else p0
                | None \<Rightarrow> p0);
          p2 = (if nonempty (gender u) then p1 @ ''Gender: '' @ fmt (gender u) @ NL else p1);
          p3 = (if nonempty (allergies u) then p2 @ ''Allergies: '' @ fmt (allergies u) @ NL else p2);
          p4 = (if nonempty (medical_history u)
                then p3 @ ''History: '' @ fmt (medical_history u) @ NL else p3);
          p5 = (if nonempty (emergency_contact u)
                then p4 @ ''Emergency Contact: '' @ fmt (emergency_contact u) @ NL else p4)
      in p5)\<close>

definition media_handling ::
  \<open>env \<Rightarrow> string \<Rightarrow> string option \<Rightarrow> (media option \<times> string \<times> string) option\<close> where
  \<comment> \<open>lines 275--293: media part, media label and message body; \<open>None\<close> when \<open>Image.open\<close> raises\<close>
  \<open>media_handling env message_body media_id =
     (let plain = Some (None, ''Image'', message_body) in
      if \<not> nonempty media_id then plain
      else
        (let url = media_url env (the media_id) in
         if \<not> nonempty url then plain
         else
           (case media_download env (the url) of (media_data, mime_type) \<Rightarrow>
              if \<not> nonempty media_data then plain
              else if mime_type \<noteq> None \<and> startswith (the mime_type) ''image'' then
                (if image_open env (the media_data)
                 then Some (Some (Image (the media_data)), ''Image'',
                            message_body @ NL @ ''[System: User uploaded an medical image/prescription]'')
                 else None)
              else if mime_type \<noteq> None \<and> startswith (the mime_type) ''audio'' then
                Some (Some (Audio (the mime_type) (the media_data)), ''Audio'',
                      message_body @ NL @ ''[System: User sent a Voice Note. Listen carefully and reply.]'')
              else plain)))\<close>

definition Q :: string where
  \<open>Q = [CHR 0x27]\<close>

definition greeting_guide :: \<open>nat \<Rightarrow> bool \<Rightarrow> string \<Rightarrow> string\<close> where
  \<comment> \<open>lines 299--316\<close>
  \<open>greeting_guide hour is_first_message user_name =
     (if is_first_message then
        ''Context: No chat history found. If user asks a specific question, ANSWER DIRECTLY (do not introduce yourself). If user says ''
          @ Q @ ''Hi'' @ Q @ ''/'' @ Q @ ''Hello'' @ Q @ '', say: '' @ Q @ ''Namaste '' @ user_name
          @ ''! Main Jiva hoon.'' @ Q
      else if 6 \<le> hour \<and> hour < 12 then
        ''Use morning greeting: '' @ Q @ ''Good morning '' @ user_name @ ''! Kaisi tabiyat hai aaj?'' @ Q
      else if 12 \<le> hour \<and> hour < 17 then
        ''Use afternoon greeting: '' @ Q @ ''Hello '' @ user_name @ ''! Kya haal hai?'' @ Q
      else if 17 \<le> hour \<and> hour < 21 then
        ''Use evening greeting: '' @ Q @ ''Namaste '' @ user_name @ ''! Sab theek?'' @ Q
      else
        ''Use night greeting: '' @ Q @ ''Hi '' @ user_name @ ''! Abhi tak jaage?'' @ Q)\<close>

definition system_instruction :: \<open>env \<Rightarrow> string \<Rightarrow> string \<Rightarrow> string\<close> where
  \<comment> \<open>lines 318--381\<close>
  \<open>system_instruction env profile guide =
     prompt_head env @ ''Time: '' @ now_text env @ NL
       @ ''User Context: '' @ profile @ NL
       @ ''Greeting Guidance: "'' @ guide
       @ ''" (Use this ONLY if conversation just started. Otherwise IGNORE.)'' @ NL
       @ prompt_tail env\<close>

definition history_content :: \<open>turn list \<Rightarrow> (string \<times> string) list\<close> where
  \<comment> \<open>lines 383--386\<close>
  \<open>history_content hist =
     map (\<lambda>msg. (if role msg = ''user'' then ''user'' else ''model'', content msg)) hist\<close>

datatype failure = RateLimit | ServerError | CriticalError

definition classify :: \<open>string \<Rightarrow> failure\<close> where
  \<comment> \<open>lines 431--443, on \<open>str(e)\<close>\<close>
  \<open>classify e =
     (let error_str = lower e in
      if contains error_str ''429'' \<or> contains error_str ''quota'' \<or> contains error_str ''exhausted''
      then RateLimit
      else if contains error_str ''500'' \<or> contains error_str ''503'' then ServerError
      else CriticalError)\<close>

text \<open>
  The loop over \<open>models_to_try\<close> (lines 406--443). The result is the world with the
  invocations recorded, \<open>response_text\<close> and \<open>success\<close>. Each class of failure ends in
  \<open>continue\<close>.
\<close>

fun models_loop :: \<open>env \<Rightarrow> (string \<Rightarrow> call) \<Rightarrow> string list \<Rightarrow> world \<Rightarrow> world \<times> string \<times> bool\<close> where
  \<open>models_loop env request [] w = (w, [], False)\<close>
| \<open>models_loop env request (model_name # rest) w =
     (let w1 = w\<lparr>calls := calls w @ [request model_name]\<rparr> in
      case gemini env (request model_name) of
        Inr text \<Rightarrow> (w1, text, True)
      | Inl e \<Rightarrow>
          (case classify e of
             RateLimit \<Rightarrow> models_loop env request rest w1
           | ServerError \<Rightarrow> models_loop env request rest w1
           | CriticalError \<Rightarrow> models_loop env request rest w1))\<close>

definition groq_fallback ::
  \<open>env \<Rightarrow> string \<Rightarrow> string \<Rightarrow> world \<times> string \<times> bool \<Rightarrow> world \<times> string \<times> bool\<close> where
  \<comment> \<open>lines 447--463\<close>
  \<open>groq_fallback env sys message_body st =
     (case st of (w, response_text, success) \<Rightarrow>
        if \<not> success \<and> groq_client env \<noteq> None then
          (let w1 = w\<lparr>calls := calls w @ [GroqChat sys message_body]\<rparr> in
           case the (groq_client env) (GroqChat sys message_body) of
             Inr text \<Rightarrow> (w1, text, True)
           | Inl e \<Rightarrow> (w1, response_text, success))
        else st)\<close>

subsection \<open>Applying the directives (lines 484--511)\<close>

definition has_key :: \<open>string \<Rightarrow> json \<Rightarrow> bool option\<close> where
  \<comment> \<open>\<open>key in v\<close>; \<open>None\<close> is the \<open>TypeError\<close> of a value that is no container\<close>
  \<open>has_key key v =
     (case v of
        JDict kvs \<Rightarrow> Some (key \<in> set (map fst kvs))
      | JList xs \<Rightarrow> Some (JStr key \<in> set xs)
      | JStr s \<Rightarrow> Some (contains s key)
      | _ \<Rightarrow> None)\<close>

definition subscript :: \<open>json \<Rightarrow> string \<Rightarrow> json option\<close> where
  \<comment> \<open>\<open>v[key]\<close>; \<open>None\<close> is the \<open>KeyError\<close> or \<open>TypeError\<close>\<close>
  \<open>subscript v key = (case v of JDict kvs \<Rightarrow> map_of kvs key | _ \<Rightarrow> None)\<close>

definition profile_update ::
  \<open>env \<Rightarrow> world \<Rightarrow> string \<Rightarrow> json \<Rightarrow> string \<Rightarrow> world + world \<times> string\<close> where
  \<comment> \<open>lines 486--489; \<open>Inl\<close> is the world in which the exception leaves the pipeline\<close>
  \<open>profile_update env w user_phone updates final_reply =
     (if truthy updates then
        (let w1 = update_user_profile env w user_phone updates in
         case has_key ''emergency_contact'' updates of
           None \<Rightarrow> Inl w1
         | Some False \<Rightarrow> Inr (w1, final_reply)
         | Some True \<Rightarrow>
             (case subscript updates ''emergency_contact'' of
                None \<Rightarrow> Inl w1
              | Some v \<Rightarrow>
                  Inr (w1, final_reply @ NL @ ''('' @ CHECK_MARK @ '' Saved Emergency Contact: ''
                             @ py_str env v @ '')'')))
      else Inr (w, final_reply))\<close>

definition iter_json :: \<open>json \<Rightarrow> json list option\<close> where
  \<comment> \<open>\<open>for item in v\<close>; \<open>None\<close> when \<open>v\<close> is not iterable\<close>
  \<open>iter_json v =
     (case v of
        JList xs \<Rightarrow> Some xs
      | JDict kvs \<Rightarrow> Some (map (\<lambda>kv. JStr (fst kv)) kvs)
      | JStr s \<Rightarrow> Some (map (\<lambda>c. JStr [c]) s)
      | _ \<Rightarrow> None)\<close>

definition read_item :: \<open>env \<Rightarrow> json \<Rightarrow> (int \<times> json) option\<close> where
  \<comment> \<open>\<open>datetime.fromisoformat(item['time'])\<close>, then \<open>item['message']\<close>; \<open>None\<close> when either raises\<close>
  \<open>read_item env item =
     (case subscript item ''time'' of
        Some (JStr t) \<Rightarrow>
          (case fromisoformat env t of
             Some r_time \<Rightarrow>
               (case subscript item ''message'' of
                  Some msg \<Rightarrow> Some (r_time, msg)
                | None \<Rightarrow> None)
           | None \<Rightarrow> None)
      | _ \<Rightarrow> None)\<close>

text \<open>
  The loop of lines 495--498, inside the \<open>try\<close> of line 494: an exception in the body
  leaves the loop.
\<close>

fun reminder_loop :: \<open>env \<Rightarrow> world \<Rightarrow> nat \<Rightarrow> json list \<Rightarrow> world\<close> where
  \<open>reminder_loop env w user_id [] = w\<close>
| \<open>reminder_loop env w user_id (item # rest) =
     (case read_item env item of
        None \<Rightarrow> w
      | Some (r_time, msg) \<Rightarrow> reminder_loop env (create_reminder env w user_id r_time msg) user_id rest)\<close>

definition schedule_reminders :: \<open>env \<Rightarrow> world \<Rightarrow> nat \<Rightarrow> json \<Rightarrow> world\<close> where
  \<comment> \<open>lines 493--500\<close>
  \<open>schedule_reminders env w user_id reminder_list =
     (if truthy reminder_list then
        (case iter_json reminder_list of
           None \<Rightarrow> w
         | Some items \<Rightarrow> reminder_loop env w user_id items)
      else w)\<close>

definition sos :: \<open>env \<Rightarrow> world \<Rightarrow> user \<Rightarrow> string \<Rightarrow> string \<Rightarrow> string \<Rightarrow> string \<Rightarrow> world \<times> string\<close> where
  \<comment> \<open>lines 503--511\<close>
  \<open>sos env w u user_phone message_body response_text final_reply =
     (if contains response_text ''[[SOS]]'' then
        (let final_reply = strip (str_replace ''[[SOS]]'' [] final_reply);
             contact = emergency_contact u
         in if nonempty contact then
              (fst (send_whatsapp_message env w (the contact)
                      (SIREN @ '' EMERGENCY: '' @ fmt (name u) @ '' ('' @ user_phone
                         @ '') needs help! Message: '' @ Q @ message_body @ Q)),
               final_reply @ NL @ NL @ SIREN
                 @ '' **I HAVE ALERTED YOUR EMERGENCY CONTACT.** Help is on the way.'')
            else
              (w, final_reply @ NL @ NL @ WARNING_SIGN
                 @ '' **I tried to alert your family, but NO Emergency Contact is saved!** Please call 102/108 immediately.''))
      else (w, final_reply))\<close>

definition reply_and_save :: \<open>env \<Rightarrow> world \<Rightarrow> user \<Rightarrow> string \<Rightarrow> string \<Rightarrow> string \<Rightarrow> result\<close> where
  \<comment> \<open>lines 468--518, for the \<open>response_text\<close> of line 467\<close>
  \<open>reply_and_save env w u user_phone message_body response_text =
     (let final_reply = response_text in
      case extract_json (loads env) ''[[UPDATE_PROFILE:'' final_reply of (updates, final_reply) \<Rightarrow>
      case profile_update env w user_phone updates final_reply of
        Inl w1 \<Rightarrow> Raised w1
      | Inr (w1, final_reply) \<Rightarrow>
      case extract_json (loads env) ''[[SCHEDULE_REMINDERS:'' final_reply of (reminder_list, final_reply) \<Rightarrow>
      let w2 = schedule_reminders env w1 (uid u) reminder_list in
      case sos env w2 u user_phone message_body response_text final_reply of (w3, final_reply) \<Rightarrow>
      let w4 = save_message env w3 (uid u) ''user'' message_body;
          w5 = save_message env w4 (uid u) ''assistant'' final_reply
      in Done (fst (send_whatsapp_message env w5 user_phone final_reply)))\<close>

definition respond :: \<open>env \<Rightarrow> user \<Rightarrow> string \<Rightarrow> string \<Rightarrow> world \<times> string \<times> bool \<Rightarrow> result\<close> where
  \<comment> \<open>lines 465--521\<close>
  \<open>respond env u user_phone message_body st =
     (case st of (w, response_text, success) \<Rightarrow>
        if \<not> success then reply_and_save env w u user_phone message_body NOTICE
        else Done (fst (send_whatsapp_message env w user_phone response_text)))\<close>

definition name_capture :: \<open>env \<Rightarrow> world \<Rightarrow> string \<Rightarrow> string \<Rightarrow> world\<close> where
  \<comment> \<open>lines 249--257; neither call of the \<open>try\<close> raises, so its handler is never entered\<close>
  \<open>name_capture env w user_phone message_body =
     (let new_name = strip message_body;
          w1 = update_user_profile env w user_phone (JDict [(''name'', JStr new_name)])
      in fst (send_whatsapp_message env w1 user_phone
                (''Namaste '' @ new_name
                   @ ''! I am ready to help you with your health. How are you feeling today?'')))\<close>

definition active_flow :: \<open>env \<Rightarrow> world \<Rightarrow> user \<Rightarrow> string \<Rightarrow> string \<Rightarrow> string option \<Rightarrow> result\<close> where
  \<comment> \<open>lines 260--521\<close>
  \<open>active_flow env w u user_phone message_body media_id =
     (let user_id = uid u;
          user_name = fmt (name u);
          profile = profile_str u;
          hist = get_chat_history env w user_id
      in case media_handling env message_body media_id of
           None \<Rightarrow> Raised w
         | Some (media_part, media_type_label, message_body) \<Rightarrow>
             (let is_first_message = (length hist = 0);
                  guide = greeting_guide (now_hour env) is_first_message user_name;
                  sys = system_instruction env profile guide;
                  request = (\<lambda>model_name.
                     case media_part of
                       Some part \<Rightarrow> GenerateContent model_name sys media_type_label part message_body
                     | None \<Rightarrow> SendMessage model_name (history_content hist)
                                 (sys @ NL @ NL @ ''User: '' @ message_body));
                  st = models_loop env request models_to_try w;
                  st = groq_fallback env sys message_body st
              in respond env u user_phone message_body st))\<close>

definition processing_pipeline :: \<open>env \<Rightarrow> world \<Rightarrow> string \<Rightarrow> string \<Rightarrow> string option \<Rightarrow> result\<close> where
  \<open>processing_pipeline env w user_phone message_body media_id =
     (case get_user env w user_phone of
        None \<Rightarrow>
          Done (fst (send_whatsapp_message env (create_user env w user_phone ''Pending'')
                       user_phone INTRO))
      | Some u \<Rightarrow>
          if name u = Some ''Pending'' then Done (name_capture env w user_phone message_body)
          else active_flow env w u user_phone message_body media_id)\<close>

section \<open>The reminder sweep (lines 581--619)\<close>

definition mark_sent :: \<open>env \<Rightarrow> world \<Rightarrow> nat \<Rightarrow> world\<close> where
  \<open>mark_sent env w i =
     (if store_raises env (MarkSent i) then w
      else w\<lparr>reminders := map (\<lambda>r. if rid r = i then r\<lparr>status := ''sent''\<rparr> else r)
                                (reminders w)\<rparr>)\<close>

definition sweep_one :: \<open>env \<Rightarrow> world \<Rightarrow> reminder \<Rightarrow> world\<close> where
  \<comment> \<open>the body of the loop, lines 597--616; \<open>single()\<close> raises unless exactly one row matches\<close>
  \<open>sweep_one env w r =
     (if store_raises env (SelectUserById (r_user_id r)) then w
      else (case filter (\<lambda>u. uid u = r_user_id r) (users w) of
              [u] \<Rightarrow>
                (let phone = phone_number u;
                     msg = ALARM_CLOCK @ '' Reminder: '' @ py_str env (message r);
                     w1 = fst (send_whatsapp_message env w phone msg)
                 in mark_sent env w1 (rid r))
            | _ \<Rightarrow> w))\<close>

fun sweep_loop :: \<open>env \<Rightarrow> world \<Rightarrow> reminder list \<Rightarrow> world\<close> where
  \<open>sweep_loop env w [] = w\<close>
| \<open>sweep_loop env w (r # rs) = sweep_loop env (sweep_one env w r) rs\<close>

definition due :: \<open>env \<Rightarrow> world \<Rightarrow> reminder list\<close> where
  \<open>due env w = filter (\<lambda>r. status r = ''pending'' \<and> reminder_time r \<le> now env) (reminders w)\<close>

definition check_Reminders :: \<open>env \<Rightarrow> world \<Rightarrow> world\<close> where
  \<open>check_Reminders env w =
     (if store_raises env (SelectDue (now env)) then w
      else sweep_loop env w (due env w))\<close>

definition final :: \<open>result \<Rightarrow> world\<close> where
  \<comment> \<open>the world in which a run ends\<close>
  \<open>final r = (case r of Done w \<Rightarrow> w | Raised w \<Rightarrow> w)\<close>

section \<open>Notions used in the statements\<close>

definition model_of :: \<open>call \<Rightarrow> string\<close> where
  \<comment> \<open>the model that an invocation addresses\<close>
  \<open>model_of c =
     (case c of
        GenerateContent m sys label part body \<Rightarrow> m
      | SendMessage m hist prompt \<Rightarrow> m
      | GroqChat sys body \<Rightarrow> ''llama-3.3-70b-versatile'')\<close>

definition failed :: \<open>env \<Rightarrow> call \<Rightarrow> bool\<close> where
  \<comment> \<open>the invocation raises\<close>
  \<open>failed env c = (case gemini env c of Inl e \<Rightarrow> True | Inr text \<Rightarrow> False)\<close>

definition attempted :: \<open>env \<Rightarrow> (string \<Rightarrow> call) \<Rightarrow> string list \<Rightarrow> string list\<close> where
  \<comment> \<open>the models up to and including the first that answers\<close>
  \<open>attempted env request ms =
     takeWhile (\<lambda>m. failed env (request m)) ms
       @ take 1 (dropWhile (\<lambda>m. failed env (request m)) ms)\<close>

definition field_line :: \<open>string \<Rightarrow> string option \<Rightarrow> string\<close> where
  \<comment> \<open>the line of a profile field: present when the field holds a text that is not empty\<close>
  \<open>field_line label v = (if nonempty v then label @ '': '' @ fmt v @ NL else [])\<close>

definition age_text :: \<open>user \<Rightarrow> string option\<close> where
  \<comment> \<open>the age as text, when it is stored and not zero\<close>
  \<open>age_text u = (case age u of None \<Rightarrow> None | Some a \<Rightarrow> if a \<noteq> 0 then Some (str_int a) else None)\<close>

definition row_of :: \<open>reminder \<Rightarrow> nat \<times> int \<times> json \<times> string\<close> where
  \<comment> \<open>a reminder without its key\<close>
  \<open>row_of r = (r_user_id r, reminder_time r, message r, status r)\<close>

section \<open>A concrete setting\<close>

text \<open>
  The general statements below hold for every \<open>env\<close>. The instances are evaluated in
  \<open>base_env\<close>: a store and a WhatsApp API that accept everything, both Gemini models out of
  quota, no fallback client, the JSON reader above for \<open>json.loads\<close>, \<open>str()\<close> on scalars,
  and an ISO reader for texts of the form \<open>YYYY-MM-DDTHH:MM:SS\<close> whose value is the count
  of seconds in a calendar of 31-day months, which keeps the order of the times.
\<close>

definition str_scalar :: \<open>json \<Rightarrow> string\<close> where
  \<open>str_scalar v =
     (case v of
        JNull \<Rightarrow> ''None''
      | JBool b \<Rightarrow> (if b then ''True'' else ''False'')
      | JInt n \<Rightarrow> str_int n
      | JStr s \<Rightarrow> s
      | _ \<Rightarrow> [])\<close>

definition iso_time :: \<open>string \<Rightarrow> int option\<close> where
  \<open>iso_time s =
     (if length s = 19 \<and> s ! 4 = CHR ''-'' \<and> s ! 7 = CHR ''-'' \<and> s ! 10 = CHR ''T''
         \<and> s ! 13 = CHR '':'' \<and> s ! 16 = CHR '':''
         \<and> list_all is_digit (take 4 s @ take 2 (drop 5 s) @ take 2 (drop 8 s)
                                 @ take 2 (drop 11 s) @ take 2 (drop 14 s) @ take 2 (drop 17 s))
      then
        (let y = int_of_digits (take 4 s);
             mo = int_of_digits (take 2 (drop 5 s));
             d = int_of_digits (take 2 (drop 8 s));
             h = int_of_digits (take 2 (drop 11 s));
             mi = int_of_digits (take 2 (drop 14 s));
             sec = int_of_digits (take 2 (drop 17 s))
         in if 1 \<le> y \<and> 1 \<le> mo \<and> mo \<le> 12 \<and> 1 \<le> d \<and> d \<le> 31 \<and> h < 24 \<and> mi < 60 \<and> sec < 60
            then Some (((((y * 12 + (mo - 1)) * 31 + (d - 1)) * 24 + h) * 60 + mi) * 60 + sec)
            else None)
      else None)\<close>

definition base_env :: env where
  \<open>base_env =
     \<lparr>store_raises = (\<lambda>op. False),
      post = (\<lambda>to_phone msg. Status 200),
      gemini = (\<lambda>c. Inl ''429 Resource has been exhausted''),
      groq_client = None,
      loads = json_loads,
      py_str = str_scalar,
      fromisoformat = iso_time,
      now = 65100000000,
      now_hour = 9,
      now_text = ''2025-06-01 09:00 AM'',
      media_url = (\<lambda>i. None),
      media_download = (\<lambda>u. (None, None)),
      image_open = (\<lambda>b. False),
      prompt_head = ''You are Jiva.'' @ NL,
      prompt_tail = []\<rparr>\<close>

definition asha :: user where
  \<open>asha =
     \<lparr>uid = 1, phone_number = ''919999999999'', name = Some ''Asha'', age = None,
      gender = None, blood_group = None, allergies = None, medical_history = None,
      emergency_contact = None\<rparr>\<close>

definition base_world :: world where
  \<open>base_world = \<lparr>users = [asha], chat_history = [], reminders = [], outbox = [], calls = []\<rparr>\<close>

definition answering :: \<open>string \<Rightarrow> call \<Rightarrow> string + string\<close> where
  \<comment> \<open>a Gemini that answers every request with the given text\<close>
  \<open>answering text c = Inr text\<close>

definition metformin :: reminder where
  \<open>metformin =
     \<lparr>rid = 1, r_user_id = 1, reminder_time = 65085152400, message = JStr ''Take Metformin'',
      status = ''pending''\<rparr>\<close>

definition no_time :: json where
  \<open>no_time = JDict [(''message'', JStr ''Walk'')]\<close>

definition take_metformin :: json where
  \<open>take_metformin =
     JDict [(''message'', JStr ''Take Metformin''), (''time'', JStr ''2025-01-01T09:00:00'')]\<close>

definition padded_name :: string where
  \<comment> \<open>U+00A0, a blank, \<open>Ravi Kumar\<close>, a blank, U+2003\<close>
  \<open>padded_name = [CHR 0xC2, CHR 0xA0] @ '' Ravi Kumar '' @ [CHR 0xE2, CHR 0x80, CHR 0x83]\<close>

definition reminder_reply :: string where
  \<open>reminder_reply =
     ''Noted. [[SCHEDULE_REMINDERS: [{"message":"Take Metformin","time":"2025-01-01T09:00:00"}]]]''\<close>

section \<open>Properties of the directive extractor\<close>

lemma first_index_decomp:
  assumes \<open>tag \<noteq> []\<close> and \<open>first_index tag (pre @ butlast tag) = None\<close>
  shows \<open>first_index tag (pre @ tag @ rest) = Some (length pre)\<close>
  using assms
proof (induction pre)
  case Nil
  then show ?case by (cases tag) (simp_all add: startswith_def)
next
  case (Cons c p)
  obtain b l where tg: \<open>tag = b @ [l]\<close>
    using Cons.prems(1) by (cases tag rule: rev_cases) auto
  from Cons.prems(2) have ns: \<open>\<not> startswith (c # p @ butlast tag) tag\<close>
    and rec: \<open>first_index tag (p @ butlast tag) = None\<close>
    by (auto split: if_splits)
  have \<open>take (length tag) (c # p @ tag @ rest) = take (length tag) (c # p @ butlast tag)\<close>
    unfolding tg by simp
  with ns have \<open>\<not> startswith (c # p @ tag @ rest) tag\<close>
    by (simp add: startswith_def)
  with Cons.IH [OF Cons.prems(1) rec] show ?case by simp
qed


lemma str_find_decomp:
  assumes \<open>tag \<noteq> []\<close> and \<open>\<not> contains (pre @ butlast tag) tag\<close>
  shows \<open>str_find (pre @ tag @ rest) tag 0 = int (length pre)\<close>
  using first_index_decomp [OF assms(1), of pre rest] assms(2)
  by (simp add: str_find_def contains_def)

lemma str_find_close:
  assumes \<open>\<not> contains (tag @ payload @ '']'') '']]''\<close>
  shows \<open>str_find (pre @ tag @ payload @ '']]'' @ suf) '']]'' (int (length pre))
           = int (length pre + length tag + length payload)\<close>
proof -
  have \<open>first_index '']]'' ((tag @ payload) @ '']]'' @ suf) = Some (length (tag @ payload))\<close>
    using assms by (intro first_index_decomp) (simp_all add: contains_def)
  then show ?thesis by (simp add: str_find_def)
qed

lemma slice_payload:
  \<open>slice (pre @ tag @ payload @ '']]'' @ suf) (int (length pre) + int (length tag))
       (int (length pre + length tag + length payload)) = payload\<close>
  by (simp add: slice_def Let_def min_def)

lemma contains_decomp: \<open>tag \<noteq> [] \<Longrightarrow> \<not> contains (pre @ butlast tag) tag \<Longrightarrow> contains (pre @ tag @ rest) tag\<close>
  using first_index_decomp [of tag pre rest] by (simp add: contains_def)

text \<open>
  A text \<open>pre @ tag @ payload @ '']]'' @ suf\<close>, where the marker \<open>tag\<close> does not begin inside
  \<open>pre\<close>, the closing marker does not begin before the end of the payload, and the payload
  decodes to \<open>v\<close>: line 478 returns \<open>v\<close> and \<open>pre\<close> without its leading and trailing
  whitespace, whatever \<open>suf\<close> is.
\<close>

lemma extract_json_valid_payload:
  assumes \<open>tag \<noteq> []\<close>
    and \<open>\<not> contains (pre @ butlast tag) tag\<close>
    and \<open>\<not> contains (tag @ payload @ '']'') '']]''\<close>
    and \<open>decode payload = Some v\<close>
  shows \<open>extract_json decode tag (pre @ tag @ payload @ '']]'' @ suf) = (v, strip pre)\<close>
proof -
  let ?text = \<open>pre @ tag @ payload @ '']]'' @ suf\<close>
  have c: \<open>contains ?text tag\<close> using assms(1,2) by (rule contains_decomp)
  have s: \<open>str_find ?text tag 0 = int (length pre)\<close> using assms(1,2) by (rule str_find_decomp)
  have e: \<open>str_find ?text '']]'' (int (length pre)) = int (length pre + length tag + length payload)\<close>
    using assms(3) by (rule str_find_close)
  show ?thesis
    unfolding extract_json_def Let_def s e slice_payload using c assms(4) by simp
qed

lemma extract_json_valid_payload_instance:
  \<open>''[[UPDATE_PROFILE:'' \<noteq> []
   \<and> \<not> contains (''Hi '' @ butlast ''[[UPDATE_PROFILE:'') ''[[UPDATE_PROFILE:''
   \<and> \<not> contains (''[[UPDATE_PROFILE:'' @ '' {"age": 30}'' @ '']'') '']]''
   \<and> json_loads '' {"age": 30}'' = Some (JDict [(''age'', JInt 30)])
   \<and> extract_json json_loads ''[[UPDATE_PROFILE:''
         (''Hi '' @ ''[[UPDATE_PROFILE:'' @ '' {"age": 30}'' @ '']]'' @ '' bye'')
       = (JDict [(''age'', JInt 30)], strip ''Hi '')\<close>
proof -
  have h1: \<open>''[[UPDATE_PROFILE:'' \<noteq> []\<close> by simp
  have h2: \<open>\<not> contains (''Hi '' @ butlast ''[[UPDATE_PROFILE:'') ''[[UPDATE_PROFILE:''\<close>
    by code_simp
  have h3: \<open>\<not> contains (''[[UPDATE_PROFILE:'' @ '' {"age": 30}'' @ '']'') '']]''\<close>
    by code_simp
  have h4: \<open>json_loads '' {"age": 30}'' = Some (JDict [(''age'', JInt 30)])\<close>
    by code_simp
  from extract_json_valid_payload
         [where decode = json_loads and tag = \<open>''[[UPDATE_PROFILE:''\<close> and pre = \<open>''Hi ''\<close>
            and payload = \<open>'' {"age": 30}''\<close> and suf = \<open>'' bye''\<close>, OF h1 h2 h3 h4]
       h1 h2 h3 h4
  show ?thesis by blast
qed

text \<open>
  Claim C3 at the input \<open>Hi [[UPDATE_PROFILE: {"age": 30}]] bye\<close>: the payload decodes,
  and the cleaned text is \<open>Hi\<close>. The text after the closing marker is lost with the span,
  where lines 481 and 504 take out the span alone.
\<close>

theorem extract_json_drops_text_after_marker:
  \<open>json_loads '' {"age": 30}'' = Some (JDict [(''age'', JInt 30)])
   \<and> snd (extract_json json_loads ''[[UPDATE_PROFILE:'' ''Hi [[UPDATE_PROFILE: {"age": 30}]] bye'')
       = ''Hi''
   \<and> snd (extract_json json_loads ''[[UPDATE_PROFILE:'' ''Hi [[UPDATE_PROFILE: {"age": 30}]] bye'')
       \<noteq> ''Hi '' @ '' bye''\<close>
  by code_simp

text \<open>
  Claim C4 at the input \<open>Hi [[UPDATE_PROFILE: {bad]] bye\<close>: the payload does not decode,
  nothing is raised and no directive is returned, but the pattern that line 481 removes has
  a blank between the marker and the payload that the text does not have, so the malformed
  span stays in the cleaned text.
\<close>

theorem extract_json_malformed_span_kept:
  \<open>json_loads '' {bad'' = None
   \<and> extract_json json_loads ''[[UPDATE_PROFILE:'' ''Hi [[UPDATE_PROFILE: {bad]] bye''
       = (JNull, ''Hi [[UPDATE_PROFILE: {bad]] bye'')\<close>
  by code_simp

section \<open>Properties of the pipeline before the model is called\<close>

declare str_nat.simps [simp del]

lemma str_nat_nonempty: \<open>str_nat n \<noteq> []\<close>
  by (subst str_nat.simps) simp

lemma str_int_nonempty: \<open>str_int a \<noteq> []\<close>
  by (simp add: str_int_def str_nat_nonempty)

lemma get_user_after_name_update:
  assumes \<open>get_user env w user_phone = Some u\<close>
    and \<open>\<not> store_raises env (UpdateUser user_phone (JDict [(''name'', JStr n)]))\<close>
  shows \<open>get_user env (update_user_profile env w user_phone (JDict [(''name'', JStr n)])) user_phone
           = Some (u\<lparr>name := Some n\<rparr>)\<close>
proof -
  let ?f = \<open>\<lambda>x. if phone_number x = user_phone then set_columns (JDict [(''name'', JStr n)]) x else x\<close>
  have sc: \<open>set_columns (JDict [(''name'', JStr n)]) x = x\<lparr>name := Some n\<rparr>\<close> for x
    by (simp add: set_columns_def set_column_def as_text_def)
  have ph: \<open>(\<lambda>x. phone_number x = user_phone) \<circ> ?f = (\<lambda>x. phone_number x = user_phone)\<close>
    by (auto simp: fun_eq_iff sc)
  from assms(1) have nr: \<open>\<not> store_raises env (SelectUser user_phone)\<close>
    by (auto simp: get_user_def split: if_splits)
  from assms(1) nr obtain rest where
    fl: \<open>filter (\<lambda>x. phone_number x = user_phone) (users w) = u # rest\<close>
    by (auto simp: get_user_def split: list.splits)
  then have pu: \<open>phone_number u = user_phone\<close>
    by (metis (mono_tags, lifting) filter_eq_ConsD list.set_intros(1) mem_Collect_eq set_filter)
  have \<open>filter (\<lambda>x. phone_number x = user_phone) (map ?f (users w))
        = map ?f (filter (\<lambda>x. phone_number x = user_phone) (users w))\<close>
    by (simp only: filter_map ph)
  with fl pu nr assms(2) show ?thesis
    by (simp add: get_user_def update_user_profile_def sc)
qed

text \<open>
  Claim C8. A user whose stored name is the sentinel \<open>Pending\<close> sends any message, with or
  without media. The run returns; when the store takes the update, the name that
  \<open>get_user\<close> reads afterwards is the message with its leading and trailing whitespace
  trimmed, as \<open>str.strip\<close> trims it; the confirmation greeting with that name is handed to the WhatsApp API; no model
  is invoked and no turn is saved.
\<close>

theorem name_capture_keeps_trimmed_message:
  assumes \<open>get_user env w user_phone = Some u\<close>
    and \<open>name u = Some ''Pending''\<close>
    and \<open>\<not> store_raises env (UpdateUser user_phone (JDict [(''name'', JStr (strip message_body))]))\<close>
  shows \<open>\<exists>w'. processing_pipeline env w user_phone message_body media_id = Done w'
          \<and> map_option name (get_user env w' user_phone) = Some (Some (strip message_body))
          \<and> outbox w' = outbox w @
               [(user_phone,
                 ''Namaste '' @ strip message_body
                   @ ''! I am ready to help you with your health. How are you feeling today?'',
                 post_ok (post env user_phone
                   (''Namaste '' @ strip message_body
                      @ ''! I am ready to help you with your health. How are you feeling today?'')))]
          \<and> calls w' = calls w \<and> chat_history w' = chat_history w\<close>
proof -
  let ?w1 = \<open>update_user_profile env w user_phone (JDict [(''name'', JStr (strip message_body))])\<close>
  have g: \<open>get_user env ?w1 user_phone = Some (u\<lparr>name := Some (strip message_body)\<rparr>)\<close>
    using assms(1,3) by (rule get_user_after_name_update)
  have same: \<open>outbox ?w1 = outbox w\<close> \<open>calls ?w1 = calls w\<close> \<open>chat_history ?w1 = chat_history w\<close>
    by (simp_all add: update_user_profile_def)
  have gs: \<open>get_user env (x\<lparr>outbox := ob\<rparr>) user_phone = get_user env x user_phone\<close> for x ob
    by (simp add: get_user_def)
  show ?thesis
    using assms(1,2) g same
    by (simp add: processing_pipeline_def name_capture_def send_whatsapp_message_def Let_def gs)
qed

theorem name_capture_keeps_trimmed_message_witness:
  \<open>get_user base_env (base_world\<lparr>users := [asha\<lparr>name := Some ''Pending''\<rparr>]\<rparr>) ''919999999999''
     = Some (asha\<lparr>name := Some ''Pending''\<rparr>)
   \<and> name (asha\<lparr>name := Some ''Pending''\<rparr>) = Some ''Pending''
   \<and> \<not> store_raises base_env
         (UpdateUser ''919999999999'' (JDict [(''name'', JStr (strip padded_name))]))
   \<and> strip padded_name = ''Ravi Kumar''
   \<and> (\<exists>w'. processing_pipeline base_env (base_world\<lparr>users := [asha\<lparr>name := Some ''Pending''\<rparr>]\<rparr>)
               ''919999999999'' padded_name None = Done w'
          \<and> map_option name (get_user base_env w' ''919999999999'')
              = Some (Some (strip padded_name))
          \<and> calls w' = calls (base_world\<lparr>users := [asha\<lparr>name := Some ''Pending''\<rparr>]\<rparr>))\<close>
proof -
  let ?w = \<open>base_world\<lparr>users := [asha\<lparr>name := Some ''Pending''\<rparr>]\<rparr>\<close>
  have h1: \<open>get_user base_env ?w ''919999999999'' = Some (asha\<lparr>name := Some ''Pending''\<rparr>)\<close>
    by code_simp
  have h2: \<open>name (asha\<lparr>name := Some ''Pending''\<rparr>) = Some ''Pending''\<close>
    by simp
  have h3: \<open>\<not> store_raises base_env
         (UpdateUser ''919999999999'' (JDict [(''name'', JStr (strip padded_name))]))\<close>
    by (simp add: base_env_def)
  have h4: \<open>strip padded_name = ''Ravi Kumar''\<close>
    by code_simp
  from name_capture_keeps_trimmed_message [OF h1 h2 h3, of None] h1 h2 h3 h4
  show ?thesis by blast
qed

text \<open>
  Claim C10. When the store's lookup of the sender raises, whatever the tables hold, the run
  tries to insert a user with the name \<open>Pending\<close>, hands the fixed introduction to the
  WhatsApp API and returns: no model is invoked, no turn is saved and no reminder is touched.
\<close>

theorem lookup_error_onboards_again:
  assumes \<open>store_raises env (SelectUser user_phone)\<close>
  shows \<open>\<exists>w'. processing_pipeline env w user_phone message_body media_id = Done w'
          \<and> w' = fst (send_whatsapp_message env (create_user env w user_phone ''Pending'')
                        user_phone INTRO)
          \<and> outbox w' = outbox w @ [(user_phone, INTRO, post_ok (post env user_phone INTRO))]
          \<and> users w' = (if store_raises env (InsertUser user_phone ''Pending'') then users w
               else users w @
                 [\<lparr>uid = fresh_id (map uid (users w)), phone_number = user_phone,
                   name = Some ''Pending'', age = None, gender = None, blood_group = None,
                   allergies = None, medical_history = None, emergency_contact = None\<rparr>])
          \<and> calls w' = calls w \<and> chat_history w' = chat_history w
          \<and> reminders w' = reminders w\<close>
  using assms
  by (simp add: processing_pipeline_def get_user_def send_whatsapp_message_def create_user_def
      Let_def)

theorem lookup_error_onboards_again_witness:
  \<open>store_raises (base_env\<lparr>store_raises := (\<lambda>op. op = SelectUser ''919999999999'')\<rparr>)
       (SelectUser ''919999999999'')
   \<and> name (hd (users base_world)) = Some ''Asha''
   \<and> phone_number (hd (users base_world)) = ''919999999999''
   \<and> (\<exists>w'. processing_pipeline (base_env\<lparr>store_raises := (\<lambda>op. op = SelectUser ''919999999999'')\<rparr>)
               base_world ''919999999999'' ''I have a headache'' None = Done w'
          \<and> outbox w' = outbox base_world @
               [(''919999999999'', INTRO,
                 post_ok (post (base_env\<lparr>store_raises := (\<lambda>op. op = SelectUser ''919999999999'')\<rparr>)
                            ''919999999999'' INTRO))]
          \<and> calls w' = calls base_world \<and> chat_history w' = chat_history base_world)\<close>
proof -
  let ?env = \<open>base_env\<lparr>store_raises := (\<lambda>op. op = SelectUser ''919999999999'')\<rparr>\<close>
  have h: \<open>store_raises ?env (SelectUser ''919999999999'')\<close>
    by simp
  have u: \<open>name (hd (users base_world)) = Some ''Asha''\<close>
    \<open>phone_number (hd (users base_world)) = ''919999999999''\<close>
    by (simp_all add: base_world_def asha_def)
  from lookup_error_onboards_again [OF h, of base_world \<open>''I have a headache''\<close> None] h u
  show ?thesis by blast
qed

text \<open>
  Claim C9, as the code has it. The profile text that line 346 places in the system
  instructions is the name line followed by the lines of age, gender, allergies, medical
  history and emergency contact, each present exactly when the stored field is neither null
  nor zero nor the empty text.
\<close>

theorem profile_str_fields:
  \<open>profile_str u =
     ''Name: '' @ fmt (name u) @ NL
       @ field_line ''Age'' (age_text u)
       @ field_line ''Gender'' (gender u)
       @ field_line ''Allergies'' (allergies u)
       @ field_line ''History'' (medical_history u)
       @ field_line ''Emergency Contact'' (emergency_contact u)
   \<and> (\<exists>a b. system_instruction env (profile_str u) guide = a @ profile_str u @ b)\<close>
proof
  show \<open>profile_str u =
     ''Name: '' @ fmt (name u) @ NL
       @ field_line ''Age'' (age_text u)
       @ field_line ''Gender'' (gender u)
       @ field_line ''Allergies'' (allergies u)
       @ field_line ''History'' (medical_history u)
       @ field_line ''Emergency Contact'' (emergency_contact u)\<close>
    by (simp add: profile_str_def field_line_def age_text_def Let_def nonempty_def fmt_def
        str_int_nonempty split: option.splits)
  have \<open>system_instruction env (profile_str u) guide
        = (prompt_head env @ ''Time: '' @ now_text env @ NL @ ''User Context: '') @ profile_str u
          @ (NL @ ''Greeting Guidance: "'' @ guide
             @ ''" (Use this ONLY if conversation just started. Otherwise IGNORE.)'' @ NL
             @ prompt_tail env)\<close>
    by (simp add: system_instruction_def)
  then show \<open>\<exists>a b. system_instruction env (profile_str u) guide = a @ profile_str u @ b\<close>
    by blast
qed

text \<open>
  The claim as the specification words it fails: an age of zero and an empty gender are
  stored, not null, and have no line in the profile text.
\<close>

theorem profile_str_skips_zero_and_empty:
  \<open>age (asha\<lparr>age := Some 0, gender := Some []\<rparr>) \<noteq> None
   \<and> gender (asha\<lparr>age := Some 0, gender := Some []\<rparr>) \<noteq> None
   \<and> \<not> contains (profile_str (asha\<lparr>age := Some 0, gender := Some []\<rparr>)) ''Age''
   \<and> \<not> contains (profile_str (asha\<lparr>age := Some 0, gender := Some []\<rparr>)) ''Gender''\<close>
  by code_simp

section \<open>Properties of the provider chain\<close>

lemma classify_continue:
  \<open>(case classify e of RateLimit \<Rightarrow> x | ServerError \<Rightarrow> x | CriticalError \<Rightarrow> x) = x\<close>
  by (cases \<open>classify e\<close>) simp_all

lemma attempted_Nil: \<open>attempted env request [] = []\<close>
  by (simp add: attempted_def)

lemma attempted_Cons:
  \<open>attempted env request (m # ms) =
     (if failed env (request m) then m # attempted env request ms else [m])\<close>
  by (simp add: attempted_def)

lemma models_loop_world:
  \<open>fst (models_loop env request ms w)
     = w\<lparr>calls := calls w @ map request (attempted env request ms)\<rparr>\<close>
proof (induction ms arbitrary: w)
  case Nil
  show ?case by (simp add: attempted_Nil)
next
  case (Cons m ms)
  show ?case
  proof (cases \<open>gemini env (request m)\<close>)
    case (Inl e)
    then have \<open>failed env (request m)\<close> by (simp add: failed_def)
    with Inl Cons.IH show ?thesis
      by (simp add: attempted_Cons classify_continue)
  next
    case (Inr reply)
    then have \<open>\<not> failed env (request m)\<close> by (simp add: failed_def)
    with Inr show ?thesis
      by (simp add: attempted_Cons)
  qed
qed

lemma models_loop_success:
  \<open>snd (snd (models_loop env request ms w)) = (\<not> list_all (\<lambda>m. failed env (request m)) ms)\<close>
proof (induction ms arbitrary: w)
  case Nil
  show ?case by simp
next
  case (Cons m ms)
  show ?case
    by (cases \<open>gemini env (request m)\<close>) (simp_all add: failed_def classify_continue Cons.IH)
qed

lemma models_loop_text:
  \<open>(case dropWhile (\<lambda>m. failed env (request m)) ms of
       [] \<Rightarrow> fst (snd (models_loop env request ms w)) = []
     | m # rest \<Rightarrow> gemini env (request m) = Inr (fst (snd (models_loop env request ms w))))\<close>
proof (induction ms arbitrary: w)
  case Nil
  show ?case by simp
next
  case (Cons m ms)
  show ?case
  proof (cases \<open>gemini env (request m)\<close>)
    case (Inl e)
    then have f: \<open>failed env (request m)\<close> by (simp add: failed_def)
    have eq: \<open>models_loop env request (m # ms) w
               = models_loop env request ms (w\<lparr>calls := calls w @ [request m]\<rparr>)\<close>
      using Inl by (simp add: classify_continue)
    show ?thesis
      unfolding eq using f Cons.IH [of \<open>w\<lparr>calls := calls w @ [request m]\<rparr>\<close>] by simp
  next
    case (Inr reply)
    then have f: \<open>\<not> failed env (request m)\<close> by (simp add: failed_def)
    have eq: \<open>models_loop env request (m # ms) w
               = (w\<lparr>calls := calls w @ [request m]\<rparr>, reply, True)\<close>
      using Inr by simp
    show ?thesis
      unfolding eq using f Inr by simp
  qed
qed

text \<open>
  Claim C5, as the code has it. The invocations that the chain adds are the primary models
  in their declared order up to and including the first that answers, each once; every
  failure, whatever its class, moves on to the next model; the loop succeeds exactly when
  some primary answers, and then with the text of the first that does. After that the
  fallback is invoked once, with the system instructions and the user text only, exactly
  when every primary failed and a fallback client is configured.
\<close>

theorem provider_chain_attempts:
  \<open>calls (fst (groq_fallback env sys body (models_loop env request ms w)))
     = calls w @ map request (attempted env request ms)
         @ (if list_all (\<lambda>m. failed env (request m)) ms \<and> groq_client env \<noteq> None
            then [GroqChat sys body] else [])
   \<and> snd (snd (models_loop env request ms w)) = (\<not> list_all (\<lambda>m. failed env (request m)) ms)
   \<and> (case dropWhile (\<lambda>m. failed env (request m)) ms of
         [] \<Rightarrow> fst (snd (models_loop env request ms w)) = []
       | m # rest \<Rightarrow> gemini env (request m) = Inr (fst (snd (models_loop env request ms w))))\<close>
proof -
  obtain w1 reply ok where st: \<open>models_loop env request ms w = (w1, reply, ok)\<close>
    by (cases \<open>models_loop env request ms w\<close>) auto
  have w1: \<open>w1 = w\<lparr>calls := calls w @ map request (attempted env request ms)\<rparr>\<close>
    using models_loop_world [of env request ms w] st by simp
  have ok: \<open>ok = (\<not> list_all (\<lambda>m. failed env (request m)) ms)\<close>
    using models_loop_success [of env request ms w] st by simp
  have \<open>calls (fst (groq_fallback env sys body (w1, reply, ok)))
     = calls w @ map request (attempted env request ms)
         @ (if list_all (\<lambda>m. failed env (request m)) ms \<and> groq_client env \<noteq> None
            then [GroqChat sys body] else [])\<close>
    by (simp add: groq_fallback_def w1 ok Let_def split: sum.splits)
  with st show ?thesis
    using models_loop_success [of env request ms w] models_loop_text [of env request ms w]
    by simp
qed

text \<open>
  The claim as the specification words it fails: with no \<open>GROQ_API_KEY\<close> there is no
  fallback client (lines 49--54), and a run in which both primaries fail invokes those two
  models and nothing else.
\<close>

theorem no_fallback_without_client:
  \<open>groq_client base_env = None
   \<and> list_all (\<lambda>c. failed base_env c)
       (calls (final (processing_pipeline base_env base_world ''919999999999''
                        ''I have a headache'' None)))
   \<and> map model_of
       (calls (final (processing_pipeline base_env base_world ''919999999999''
                        ''I have a headache'' None)))
     = models_to_try\<close>
  by code_simp

section \<open>Properties of the reply\<close>

lemma NOTICE_plain:
  \<open>\<not> contains NOTICE ''[[UPDATE_PROFILE:''\<close>
  \<open>\<not> contains NOTICE ''[[SCHEDULE_REMINDERS:''\<close>
  \<open>\<not> contains NOTICE ''[[SOS]]''\<close>
  by code_simp+

text \<open>
  Lines 465--521 for every run: a successful chain sends the response text as it is; a
  failed chain saves the user's message and the notice, then sends the notice.
\<close>

lemma respond_on_success:
  \<open>respond env u user_phone message_body (w, response_text, True)
     = Done (fst (send_whatsapp_message env w user_phone response_text))\<close>
  by (simp add: respond_def)

lemma respond_on_failure:
  \<open>respond env u user_phone message_body (w, response_text, False)
     = Done (fst (send_whatsapp_message env
                    (save_message env (save_message env w (uid u) ''user'' message_body)
                       (uid u) ''assistant'' NOTICE)
                    user_phone NOTICE))\<close>
  by (simp add: respond_def reply_and_save_def extract_json_def NOTICE_plain profile_update_def
      schedule_reminders_def sos_def Let_def)

text \<open>
  Claim C1 at a run in which the first model answers \<open>Rest well.[[SOS]]\<close>: the branch of
  line 465 that extracts, saves and sends is the one for a failed chain, so the answer goes
  out as it came, marker included, and no turn is saved.
\<close>

theorem model_reply_sent_raw_and_not_saved:
  \<open>map model_of
     (calls (final (processing_pipeline (base_env\<lparr>gemini := answering ''Rest well.[[SOS]]''\<rparr>)
                      base_world ''919999999999'' ''I have a headache'' None)))
     = [''gemini-2.0-flash'']
   \<and> outbox (final (processing_pipeline (base_env\<lparr>gemini := answering ''Rest well.[[SOS]]''\<rparr>)
                      base_world ''919999999999'' ''I have a headache'' None))
     = [(''919999999999'', ''Rest well.[[SOS]]'', True)]
   \<and> chat_history (final (processing_pipeline (base_env\<lparr>gemini := answering ''Rest well.[[SOS]]''\<rparr>)
                      base_world ''919999999999'' ''I have a headache'' None))
     = []\<close>
  by code_simp

text \<open>
  Claim C2 at a run in which every model fails and no fallback client is configured: the
  fixed notice is delivered, and the user's message and the notice are saved as two turns.
\<close>

theorem failed_chain_saves_two_turns:
  \<open>chat_history base_world = []
   \<and> outbox (final (processing_pipeline base_env base_world ''919999999999''
                      ''I have a headache'' None))
     = [(''919999999999'', NOTICE, True)]
   \<and> chat_history (final (processing_pipeline base_env base_world ''919999999999''
                      ''I have a headache'' None))
     = [\<lparr>t_user_id = 1, role = ''user'', content = ''I have a headache''\<rparr>,
        \<lparr>t_user_id = 1, role = ''assistant'', content = NOTICE\<rparr>]\<close>
  by code_simp

section \<open>Properties of the reminders\<close>

lemma reminder_loop_rows:
  \<open>map row_of (reminders (reminder_loop env w user_id items))
     = map row_of (reminders w)
       @ map (\<lambda>p. (user_id, fst p, snd p, ''pending''))
           (filter (\<lambda>p. \<not> store_raises env (InsertReminder user_id (fst p) (snd p)))
              (map (\<lambda>item. the (read_item env item))
                 (takeWhile (\<lambda>item. read_item env item \<noteq> None) items)))\<close>
proof (induction items arbitrary: w)
  case Nil
  show ?case by simp
next
  case (Cons item items)
  show ?case
  proof (cases \<open>read_item env item\<close>)
    case None
    then show ?thesis by simp
  next
    case (Some p)
    obtain t m where p: \<open>p = (t, m)\<close> by (cases p)
    show ?thesis
      using Some p Cons.IH [of \<open>create_reminder env w user_id t m\<close>]
      by (simp add: create_reminder_def row_of_def)
  qed
qed

lemma reminder_loop_rest:
  \<open>users (reminder_loop env w user_id items) = users w
   \<and> chat_history (reminder_loop env w user_id items) = chat_history w
   \<and> outbox (reminder_loop env w user_id items) = outbox w
   \<and> calls (reminder_loop env w user_id items) = calls w\<close>
proof (induction items arbitrary: w)
  case Nil
  show ?case by simp
next
  case (Cons item items)
  show ?case
  proof (cases \<open>read_item env item\<close>)
    case None
    then show ?thesis by simp
  next
    case (Some p)
    obtain t m where p: \<open>p = (t, m)\<close> by (cases p)
    show ?thesis
      using Some p Cons.IH [of \<open>create_reminder env w user_id t m\<close>]
      by (simp add: create_reminder_def)
  qed
qed

text \<open>
  The batch step of lines 493--500 taken by itself, on a decoded list: the rows added to
  \<open>reminders\<close> are those of the entries before the first malformed one, in order, each
  pending with the time and message of its entry, leaving out an entry whose insert the
  store refuses. The \<open>try\<close> of line 494 encloses the loop, so the first malformed entry
  ends the batch. Nothing else in the world changes and nothing is raised.
\<close>

lemma reminder_batch_stops_at_first_malformed:
  \<open>map row_of (reminders (schedule_reminders env w user_id (JList items)))
     = map row_of (reminders w)
       @ map (\<lambda>p. (user_id, fst p, snd p, ''pending''))
           (filter (\<lambda>p. \<not> store_raises env (InsertReminder user_id (fst p) (snd p)))
              (map (\<lambda>item. the (read_item env item))
                 (takeWhile (\<lambda>item. read_item env item \<noteq> None) items)))
   \<and> users (schedule_reminders env w user_id (JList items)) = users w
   \<and> chat_history (schedule_reminders env w user_id (JList items)) = chat_history w
   \<and> outbox (schedule_reminders env w user_id (JList items)) = outbox w
   \<and> calls (schedule_reminders env w user_id (JList items)) = calls w\<close>
proof (cases \<open>items = []\<close>)
  case True
  then show ?thesis by (simp add: schedule_reminders_def)
next
  case False
  then have \<open>schedule_reminders env w user_id (JList items) = reminder_loop env w user_id items\<close>
    by (simp add: schedule_reminders_def iter_json_def)
  then show ?thesis
    using reminder_loop_rows [of env w user_id items] reminder_loop_rest [of env w user_id items]
    by simp
qed

lemma malformed_entry_ends_the_batch:
  \<open>read_item base_env no_time = None
   \<and> read_item base_env take_metformin = Some (65085152400, JStr ''Take Metformin'')
   \<and> reminders (schedule_reminders base_env base_world 1 (JList [no_time, take_metformin])) = []
   \<and> map row_of (reminders (schedule_reminders base_env base_world 1 (JList [take_metformin, no_time])))
     = [(1, 65085152400, JStr ''Take Metformin'', ''pending'')]\<close>
  by code_simp

text \<open>
  The marker as the system prompt writes it (line 362) closes a JSON list directly before
  \<open>]]\<close>. The search of line 476 then stops one character early, the payload lacks its last
  bracket and does not decode.
\<close>

lemma reminder_marker_of_the_prompt_not_decoded:
  \<open>extract_json json_loads ''[[SCHEDULE_REMINDERS:''
     ''Ok [[SCHEDULE_REMINDERS: [{"message": "Take Metformin", "time": "2023-10-27T09:00:00"}]]]''
   = (JNull,
      ''Ok [[SCHEDULE_REMINDERS: [{"message": "Take Metformin", "time": "2023-10-27T09:00:00"}]]]'')\<close>
  by code_simp

text \<open>
  Claim C6 at a run in which the first model answers with the batch of the specification,
  \<open>[[SCHEDULE_REMINDERS: [{"message":"Take Metformin","time":"2025-01-01T09:00:00"}]]]\<close>:
  the answer goes out with the marker in it and no reminder is persisted, because the batch
  step sits in the branch of line 465 for a failed chain. The extractor itself, given that
  answer, decodes nothing either.
\<close>

theorem reminder_batch_of_the_model_not_persisted:
  \<open>reminders base_world = []
   \<and> outbox (final (processing_pipeline (base_env\<lparr>gemini := answering reminder_reply\<rparr>)
                      base_world ''919999999999'' ''Remind me of my Metformin'' None))
     = [(''919999999999'', reminder_reply, True)]
   \<and> reminders (final (processing_pipeline (base_env\<lparr>gemini := answering reminder_reply\<rparr>)
                      base_world ''919999999999'' ''Remind me of my Metformin'' None))
     = []
   \<and> extract_json json_loads ''[[SCHEDULE_REMINDERS:'' reminder_reply = (JNull, reminder_reply)\<close>
  by code_simp

text \<open>
  One reminder of the sweep. When the lookup of its user finds no row, or more than one, the
  world is left as it is, so the reminder stays pending. When it finds the user and the
  store takes the update, the reminder is marked sent whatever the WhatsApp API answered.
\<close>

lemma sweep_one_lookup_miss:
  assumes \<open>filter (\<lambda>u. uid u = r_user_id r) (users w) = []\<close>
  shows \<open>sweep_one env w r = w\<close>
  using assms by (simp add: sweep_one_def)

lemma sweep_one_marks_sent:
  assumes \<open>\<not> store_raises env (SelectUserById (r_user_id r))\<close>
    and \<open>filter (\<lambda>u. uid u = r_user_id r) (users w) = [u]\<close>
    and \<open>\<not> store_raises env (MarkSent (rid r))\<close>
  shows \<open>reminders (sweep_one env w r)
           = map (\<lambda>x. if rid x = rid r then x\<lparr>status := ''sent''\<rparr> else x) (reminders w)\<close>
  using assms
  by (simp add: sweep_one_def mark_sent_def send_whatsapp_message_def Let_def)

text \<open>
  Claim C7 at a sweep with one due pending reminder whose delivery times out: the result of
  \<open>send_whatsapp_message\<close> is not read (line 606), the reminder is marked sent, and the next
  sweep does not attempt it again.
\<close>

theorem sweep_marks_sent_after_failed_delivery:
  \<open>due (base_env\<lparr>post := (\<lambda>to_phone msg. Timeout)\<rparr>) (base_world\<lparr>reminders := [metformin]\<rparr>)
     = [metformin]
   \<and> outbox (check_Reminders (base_env\<lparr>post := (\<lambda>to_phone msg. Timeout)\<rparr>)
               (base_world\<lparr>reminders := [metformin]\<rparr>))
     = [(''919999999999'', ALARM_CLOCK @ '' Reminder: Take Metformin'', False)]
   \<and> map status (reminders (check_Reminders (base_env\<lparr>post := (\<lambda>to_phone msg. Timeout)\<rparr>)
               (base_world\<lparr>reminders := [metformin]\<rparr>)))
     = [''sent'']
   \<and> outbox (check_Reminders (base_env\<lparr>post := (\<lambda>to_phone msg. Timeout)\<rparr>)
               (check_Reminders (base_env\<lparr>post := (\<lambda>to_phone msg. Timeout)\<rparr>)
                  (base_world\<lparr>reminders := [metformin]\<rparr>)))
     = [(''919999999999'', ALARM_CLOCK @ '' Reminder: Take Metformin'', False)]\<close>
  by code_simp


end
